theory Spec2Isabelle
  imports Complex_Main "HOL-Library.Sublist"
begin

section \<open>JavaScript values used by the overlay server\<close>

text \<open>
  Form fields and object properties are either a string or \<open>undefined\<close>; they are
  modelled as \<open>string option\<close> with \<open>None\<close> for \<open>undefined\<close>. A string is the list
  of the bytes of its UTF-8 encoding. Numbers are IEEE doubles in the source; here they are exact
  rationals, so \<open>x / 12\<close> is the mathematical quotient, and the value NaN that
  \<open>parseInt\<close> may return is \<open>None\<close>.
\<close>

type_synonym buffer = string

text \<open>Truthiness of a string-or-undefined value: \<open>undefined\<close> and \<open>""\<close> are falsy.\<close>

definition truthy :: "string option \<Rightarrow> bool" where
  "truthy v = (case v of None \<Rightarrow> False | Some s \<Rightarrow> s \<noteq> [])"

text \<open>\<open>a || d\<close> where \<open>d\<close> is a string.\<close>

definition orElse :: "string option \<Rightarrow> string \<Rightarrow> string" where
  "orElse v d = (case v of None \<Rightarrow> d | Some s \<Rightarrow> if s = [] then d else s)"

text \<open>\<open>a || b\<close> where \<open>b\<close> may itself be \<open>undefined\<close>.\<close>

definition orOpt :: "string option \<Rightarrow> string option \<Rightarrow> string option" where
  "orOpt a b = (if truthy a then a else b)"

text \<open>\<open>String.prototype.toLowerCase\<close> on the letters A to Z.\<close>

definition toLowerChar :: "char \<Rightarrow> char" where
  "toLowerChar c =
     (let n = (of_char c :: nat) in if 65 \<le> n \<and> n \<le> 90 then char_of (n + 32) else c)"

definition toLowerCase :: "string \<Rightarrow> string" where
  "toLowerCase s = map toLowerChar s"

text \<open>
  \<open>parseInt(v, 10)\<close>: the argument is converted to a string (\<open>undefined\<close> becomes
  \<open>"undefined"\<close>), leading white space is skipped, an optional sign is read, and the
  longest run of decimal digits is the value; with no digit the result is NaN.

  White space is what the language calls white space and line terminators: the
  ASCII characters tab, line feed, vertical tab, form feed, carriage return and
  space, and, in their UTF-8 encoding, U+00A0, U+1680, U+2000 to U+200A, U+2028,
  U+2029, U+202F, U+205F, U+3000 and U+FEFF.
\<close>

definition isStrWhiteSpace :: "char \<Rightarrow> bool" where
  "isStrWhiteSpace c = (c \<in> {CHR 0x09, CHR 0x0A, CHR 0x0B, CHR 0x0C, CHR 0x0D, CHR '' ''})"

definition isStrWhiteSpace2 :: "char \<Rightarrow> char \<Rightarrow> bool" where
  "isStrWhiteSpace2 a b = (a = CHR 0xC2 \<and> b = CHR 0xA0)"

definition isStrWhiteSpace3 :: "char \<Rightarrow> char \<Rightarrow> char \<Rightarrow> bool" where
  "isStrWhiteSpace3 a b c =
     ((a = CHR 0xE1 \<and> b = CHR 0x9A \<and> c = CHR 0x80)
      \<or> (a = CHR 0xE2 \<and> b = CHR 0x80
          \<and> (128 \<le> (of_char c :: nat) \<and> (of_char c :: nat) \<le> 138
              \<or> c = CHR 0xA8 \<or> c = CHR 0xA9 \<or> c = CHR 0xAF))
      \<or> (a = CHR 0xE2 \<and> b = CHR 0x81 \<and> c = CHR 0x9F)
      \<or> (a = CHR 0xE3 \<and> b = CHR 0x80 \<and> c = CHR 0x80)
      \<or> (a = CHR 0xEF \<and> b = CHR 0xBB \<and> c = CHR 0xBF))"

fun skipWhiteSpace :: "string \<Rightarrow> string" where
  "skipWhiteSpace (a # b # c # cs) =
     (if isStrWhiteSpace a then skipWhiteSpace (b # c # cs)
      else if isStrWhiteSpace2 a b then skipWhiteSpace (c # cs)
      else if isStrWhiteSpace3 a b c then skipWhiteSpace cs
      else a # b # c # cs)"
| "skipWhiteSpace [a, b] =
     (if isStrWhiteSpace a then skipWhiteSpace [b]
      else if isStrWhiteSpace2 a b then []
      else [a, b])"
| "skipWhiteSpace [a] = (if isStrWhiteSpace a then [] else [a])"
| "skipWhiteSpace [] = []"

definition isDigit :: "char \<Rightarrow> bool" where
  "isDigit c = (let n = (of_char c :: nat) in 48 \<le> n \<and> n \<le> 57)"

definition digitsValue :: "string \<Rightarrow> nat" where
  "digitsValue ds = foldl (\<lambda>a c. 10 * a + (of_char c - 48)) 0 ds"

definition parseInt :: "string option \<Rightarrow> int option" where
  "parseInt v =
     (let s = (case v of None \<Rightarrow> ''undefined'' | Some s \<Rightarrow> s);
          t = skipWhiteSpace s;
          neg = (t \<noteq> [] \<and> hd t = CHR ''-'');
          r = (if t \<noteq> [] \<and> (hd t = CHR ''-'' \<or> hd t = CHR ''+'') then tl t else t);
          ds = takeWhile isDigit r
      in if ds = [] then None
         else Some (if neg then - int (digitsValue ds) else int (digitsValue ds)))"

text \<open>
  Number to string, as a template literal does it. Integers print in decimal; the
  printing of a non-integer double is left to the parameter \<open>showFrac\<close>.
\<close>

fun natToString :: "nat \<Rightarrow> string" where
  "natToString n =
     (if n < 10 then [char_of (48 + n)]
      else natToString (n div 10) @ [char_of (48 + n mod 10)])"

declare natToString.simps [simp del]

definition intToString :: "int \<Rightarrow> string" where
  "intToString i = (if i < 0 then CHR ''-'' # natToString (nat (- i)) else natToString (nat i))"

definition numToString :: "(rat \<Rightarrow> string) \<Rightarrow> rat \<Rightarrow> string" where
  "numToString showFrac q = (if of_int \<lfloor>q\<rfloor> = q then intToString \<lfloor>q\<rfloor> else showFrac q)"

section \<open>Escaping the overlay text\<close>

text \<open>The character class \<open>[<>&'"]\<close> of the regular expression in \<open>xmlEscape\<close>.\<close>

definition isSpecial :: "char \<Rightarrow> bool" where
  \<open>isSpecial c = (c \<in> {CHR ''<'', CHR ''>'', CHR ''&'', CHR 0x27, CHR 0x22})\<close>

text \<open>The callback of \<open>str.replace\<close>: the \<open>switch\<close> on the matched character.\<close>

definition escapeMatch :: "char \<Rightarrow> string" where
  \<open>escapeMatch c =
     (if c = CHR ''<'' then ''&lt;''
      else if c = CHR ''>'' then ''&gt;''
      else if c = CHR ''&'' then ''&amp;''
      else if c = CHR 0x27 then ''&apos;''
      else if c = CHR 0x22 then ''&quot;''
      else [c])\<close>

text \<open>
  \<open>str.replace(/[...]/g, f)\<close> for a single-character class: every matching
  character is replaced by the callback's result, left to right.
\<close>

fun replaceAll :: "(char \<Rightarrow> bool) \<Rightarrow> (char \<Rightarrow> string) \<Rightarrow> string \<Rightarrow> string" where
  "replaceAll p f [] = []"
| "replaceAll p f (c # cs) = (if p c then f c @ replaceAll p f cs else c # replaceAll p f cs)"

definition xmlEscape :: "string option \<Rightarrow> string" where
  "xmlEscape v = (case v of None \<Rightarrow> [] | Some str \<Rightarrow> replaceAll isSpecial escapeMatch str)"

text \<open>
  The escaping as the specification words it: each of the five characters stands for
  its named entity, every other character for itself.
\<close>

definition namedEntity :: "char \<Rightarrow> string" where
  \<open>namedEntity c =
     (if c = CHR ''<'' then ''&lt;''
      else if c = CHR ''>'' then ''&gt;''
      else if c = CHR ''&'' then ''&amp;''
      else if c = CHR 0x27 then ''&apos;''
      else if c = CHR 0x22 then ''&quot;''
      else [c])\<close>

text \<open>
  A string has no raw special character when it contains none of \<open><\<close>, \<open>>\<close>,
  \<open>'\<close>, \<open>"\<close>, and every \<open>&\<close> in it opens one of the five named entities.
\<close>

definition opensEntity :: "string \<Rightarrow> bool" where
  "opensEntity cs =
     (prefix ''lt;'' cs \<or> prefix ''gt;'' cs \<or> prefix ''amp;'' cs \<or> prefix ''apos;'' cs
      \<or> prefix ''quot;'' cs)"

fun noRawSpecial :: "string \<Rightarrow> bool" where
  "noRawSpecial [] = True"
| "noRawSpecial (c # cs) =
     (if c = CHR ''&'' then opensEntity cs \<and> noRawSpecial cs
      else \<not> isSpecial c \<and> noRawSpecial cs)"

section \<open>Resolving the overlay options\<close>

text \<open>
  What the image library reports about the uploaded image: its pixel width and
  height, and the detected format, if any.
\<close>

record metadata =
  width :: nat
  height :: nat
  format :: "string option"

text \<open>
  The \<open>options\<close> object that the route builds from the form fields, and the object
  \<open>textOpts\<close> of resolved values that \<open>addTextToImage\<close> derives from it.
\<close>

record options =
  fontFamily :: "string option"
  fontSize :: "string option"
  fontColor :: "string option"
  strokeColor :: "string option"
  strokeWidth :: "string option"
  xPosition :: "string option"
  yPosition :: "string option"
  textAlign :: "string option"
  dominantBaseline :: "string option"
  outputFormat :: "string option"

record textOpts =
  "text" :: string
  fontFamily :: string
  fontSize :: rat
  fontColor :: string
  strokeColor :: string
  strokeWidth :: rat
  xPosition :: string
  yPosition :: string
  textAlign :: string
  dominantBaseline :: string
  outputFormat :: string

text \<open>\<open>Math.max(20, Math.min(metadata.width, metadata.height) / 12)\<close>.\<close>

definition defaultFontSize :: "metadata \<Rightarrow> rat" where
  "defaultFontSize md = max 20 (of_nat (min (width md) (height md)) / 12)"

text \<open>\<open>parseInt(options.fontSize, 10) || defaultFontSize\<close>: NaN and 0 are falsy.\<close>

definition currentFontSize :: "metadata \<Rightarrow> options \<Rightarrow> rat" where
  "currentFontSize md opts =
     (case parseInt (options.fontSize opts) of
        None \<Rightarrow> defaultFontSize md
      | Some n \<Rightarrow> if n = 0 then defaultFontSize md else of_int n)"

text \<open>The object literal \<open>textOpts\<close>.\<close>

definition buildTextOpts :: "metadata \<Rightarrow> string option \<Rightarrow> options \<Rightarrow> textOpts" where
  "buildTextOpts md textValue opts =
     \<lparr> text = xmlEscape (Some (orElse textValue ''Sample Text'')),
       fontFamily = orElse (options.fontFamily opts) ''Arial'',
       fontSize = currentFontSize md opts,
       fontColor = orElse (options.fontColor opts) ''#FFFFFF'',
       strokeColor = orElse (options.strokeColor opts) ''#000000'',
       strokeWidth =
         (case parseInt (options.strokeWidth opts) of
            None \<Rightarrow> max 1 (currentFontSize md opts / 20)
          | Some n \<Rightarrow> if n \<ge> 0 then of_int n else max 1 (currentFontSize md opts / 20)),
       xPosition = orElse (options.xPosition opts) ''50%'',
       yPosition = orElse (options.yPosition opts) ''50%'',
       textAlign = orElse (options.textAlign opts) ''middle'',
       dominantBaseline = orElse (options.dominantBaseline opts) ''middle'',
       outputFormat =
         toLowerCase (orElse (orOpt (options.outputFormat opts) (format md)) ''png'') \<rparr>"

definition validFormats :: "string list" where
  "validFormats = [''jpeg'', ''jpg'', ''png'', ''webp'', ''tiff'', ''gif'', ''avif'']"

text \<open>The two \<open>if\<close> statements that validate the format and alias \<open>jpg\<close>.\<close>

definition sanitizeOutputFormat :: "textOpts \<Rightarrow> textOpts" where
  "sanitizeOutputFormat t =
     (let t1 = (if \<not> List.member validFormats (textOpts.outputFormat t)
                then t\<lparr>outputFormat := ''png''\<rparr> else t)
      in if textOpts.outputFormat t1 = ''jpg'' then t1\<lparr>outputFormat := ''jpeg''\<rparr> else t1)"

text \<open>
  The resolved options, as \<open>addTextToImage\<close> has them when it builds the markup and
  chooses the encoder.
\<close>

definition resolveTextOpts :: "metadata \<Rightarrow> string option \<Rightarrow> options \<Rightarrow> textOpts" where
  "resolveTextOpts md textValue opts = sanitizeOutputFormat (buildTextOpts md textValue opts)"

text \<open>The set of formats the specification calls supported.\<close>

definition supportedFormats :: "string set" where
  "supportedFormats = {''jpeg'', ''png'', ''webp'', ''avif'', ''tiff'', ''gif''}"

text \<open>The options of a request that supplies no styling field.\<close>

definition emptyOptions :: options where
  "emptyOptions =
     \<lparr> options.fontFamily = None, options.fontSize = None, options.fontColor = None,
       options.strokeColor = None, options.strokeWidth = None, options.xPosition = None,
       options.yPosition = None, options.textAlign = None, options.dominantBaseline = None,
       options.outputFormat = None \<rparr>"

section \<open>The overlay markup\<close>

text \<open>The template literal \<open>svgText\<close>, line by line, with its line breaks and indentation.\<close>

definition nl :: string where
  "nl = [CHR 0x0A]"

definition svgText :: "(rat \<Rightarrow> string) \<Rightarrow> metadata \<Rightarrow> textOpts \<Rightarrow> string" where
  \<open>svgText showFrac md t = concat
     [ nl,
       ''          <svg width="'', natToString (width md), ''" height="'',
          natToString (height md), ''">'', nl,
       ''            <style>'', nl,
       ''              .title {'', nl,
       ''                fill: "'', textOpts.fontColor t, ''";'', nl,
       ''                font-size: '', numToString showFrac (textOpts.fontSize t), ''px;'', nl,
       ''                font-family: "'', textOpts.fontFamily t, ''";'', nl,
       ''                text-anchor: "'', textOpts.textAlign t, ''";'', nl,
       ''                dominant-baseline: "'', textOpts.dominantBaseline t, ''";'', nl,
       ''                paint-order: stroke; /* Ensures stroke is drawn behind fill */'', nl,
       ''                stroke: "'', textOpts.strokeColor t, ''";'', nl,
       ''                stroke-width: '', numToString showFrac (textOpts.strokeWidth t), ''px;'', nl,
       ''                stroke-linecap: round; /* Smoother stroke ends */'', nl,
       ''                stroke-linejoin: round; /* Smoother stroke joins */'', nl,
       ''              }'', nl,
       ''            </style>'', nl,
       ''            <text x="'', textOpts.xPosition t, ''" y="'', textOpts.yPosition t,
          ''" class="title">'', textOpts.text t, ''</text>'', nl,
       ''          </svg>'', nl,
       ''        '' ]\<close>

text \<open>How many times a pattern occurs in a string (at how many positions it starts).\<close>

fun occurrences :: "string \<Rightarrow> string \<Rightarrow> nat" where
  "occurrences p [] = 0"
| "occurrences p (c # cs) = (if prefix p (c # cs) then 1 else 0) + occurrences p cs"

section \<open>The image library and \<open>addTextToImage\<close>\<close>

text \<open>
  The image library is external. Its two uses are parameters: reading the metadata of
  a buffer, and compositing the markup onto the image and encoding the result. Either
  may fail with a message (\<open>Inl\<close>). The calls made are recorded, in order.
\<close>

datatype encoder = Jpeg nat | Png nat | Webp nat | Avif nat | Tiff nat | ToFormat string

datatype sharpCall = CallMetadata buffer | CallToBuffer buffer string encoder

record sharp =
  sharp_metadata :: "buffer \<Rightarrow> string + metadata"
  sharp_toBuffer :: "buffer \<Rightarrow> string \<Rightarrow> encoder \<Rightarrow> string + buffer"

text \<open>The \<open>switch\<close> on the output format.\<close>

definition encoderFor :: "string \<Rightarrow> encoder" where
  "encoderFor fmt =
     (if fmt = ''jpeg'' then Jpeg 85
      else if fmt = ''png'' then Png 6
      else if fmt = ''webp'' then Webp 85
      else if fmt = ''avif'' then Avif 60
      else if fmt = ''tiff'' then Tiff 85
      else ToFormat fmt)"

definition addTextToImage ::
  "sharp \<Rightarrow> (rat \<Rightarrow> string) \<Rightarrow> buffer \<Rightarrow> string option \<Rightarrow> options
     \<Rightarrow> (string + buffer \<times> string) \<times> sharpCall list" where
  "addTextToImage lib showFrac imageBuffer textValue opts =
     (case sharp_metadata lib imageBuffer of
        Inl msg \<Rightarrow> (Inl (''Failed to add text overlay: '' @ msg), [CallMetadata imageBuffer])
      | Inr md \<Rightarrow>
          (let t = resolveTextOpts md textValue opts;
               svg = svgText showFrac md t;
               enc = encoderFor (textOpts.outputFormat t)
           in case sharp_toBuffer lib imageBuffer svg enc of
                Inl msg \<Rightarrow> (Inl (''Failed to add text overlay: '' @ msg),
                            [CallMetadata imageBuffer, CallToBuffer imageBuffer svg enc])
              | Inr finalBuffer \<Rightarrow> (Inr (finalBuffer, textOpts.outputFormat t),
                            [CallMetadata imageBuffer, CallToBuffer imageBuffer svg enc])))"

section \<open>The route \<open>POST /api/image/add-text\<close>\<close>

text \<open>
  The request as the upload middleware hands it over: \<open>req.file\<close> is the uploaded
  image or \<open>undefined\<close>, \<open>req.body\<close> maps the names of the text fields to their values.
\<close>

record uploaded =
  buffer :: buffer
  mimetype :: string

record request =
  "file" :: "uploaded option"
  body :: "string \<rightharpoonup> string"

text \<open>A response body is the JSON object \<open>{error: message}\<close> or the image bytes.\<close>

datatype payload = JsonError string | Binary buffer

record response =
  status :: nat
  contentType :: string
  payload :: payload

definition jsonResponse :: "nat \<Rightarrow> string \<Rightarrow> response" where
  "jsonResponse code msg =
     \<lparr> status = code, contentType = ''application/json; charset=utf-8'',
       payload = JsonError msg \<rparr>"

definition optionsOf :: "(string \<rightharpoonup> string) \<Rightarrow> options" where
  "optionsOf b =
     \<lparr> options.fontFamily = b ''fontFamily'', options.fontSize = b ''fontSize'',
       options.fontColor = b ''fontColor'', options.strokeColor = b ''strokeColor'',
       options.strokeWidth = b ''strokeWidth'', options.xPosition = b ''xPosition'',
       options.yPosition = b ''yPosition'', options.textAlign = b ''textAlign'',
       options.dominantBaseline = b ''dominantBaseline'',
       options.outputFormat = b ''outputFormat'' \<rparr>"

definition addTextRoute ::
  "sharp \<Rightarrow> (rat \<Rightarrow> string) \<Rightarrow> request \<Rightarrow> response \<times> sharpCall list" where
  "addTextRoute lib showFrac req =
     (case file req of
        None \<Rightarrow> (jsonResponse 400 ''No image file uploaded.'', [])
      | Some f \<Rightarrow>
          if \<not> truthy (body req ''text'') \<and> body req ''text'' \<noteq> Some []
          then (jsonResponse 400 ''No text parameter provided for overlay.'', [])
          else
            (case addTextToImage lib showFrac (buffer f) (body req ''text'') (optionsOf (body req)) of
               (Inr (outputBuffer, fmt), calls) \<Rightarrow>
                 (\<lparr> status = 200, contentType = ''image/'' @ fmt,
                    payload = Binary outputBuffer \<rparr>, calls)
             | (Inl msg, calls) \<Rightarrow>
                 (jsonResponse 500
                    (orElse (Some msg) ''An error occurred while processing the image.''), calls)))"

section \<open>The standalone script: where the image comes from\<close>

text \<open>
  The script reads its configuration from the environment and reaches the file
  system, the network and the marketplace client. These are parameters: each operation
  is a function of its arguments that may fail with a message, which covers every
  behaviour of the real ones. The operations performed are recorded, in order.
\<close>

datatype io =
    FsExists string
  | FsMkdir string
  | FsRead string
  | FsWrite string buffer
  | OceanResolve string
  | ProviderFiles string string
  | HttpGet string

record world =
  env :: "string \<rightharpoonup> string"
  existsSync :: "string \<Rightarrow> bool"
  mkdirSync :: "string \<Rightarrow> string option"
  readFile :: "string \<Rightarrow> string + buffer"
  writeFile :: "string \<Rightarrow> buffer \<Rightarrow> string option"
  axios_get :: "string \<Rightarrow> string + buffer"
  path_join :: "string \<Rightarrow> string \<Rightarrow> string"

record service =
  service_id :: string
  service_type :: string

record ddo =
  ddo_id :: string
  services :: "service list"

record fileObject =
  url :: "string option"

record provider =
  getEncryptedFiles :: "string \<Rightarrow> string \<Rightarrow> string \<Rightarrow> string + fileObject list option"

record ocean =
  assets_resolve :: "string \<Rightarrow> string + ddo option"
  provider :: "provider option"

text \<open>The string of a value already known to be truthy.\<close>

definition valueOf :: "string option \<Rightarrow> string" where
  "valueOf v = (case v of None \<Rightarrow> [] | Some s \<Rightarrow> s)"

text \<open>The first service of type \<open>access\<close>, or else the first service.\<close>

definition selectService :: "ddo \<Rightarrow> service option" where
  "selectService d =
     (case find (\<lambda>s. service_type s = ''access'') (services d) of
        Some s \<Rightarrow> Some s
      | None \<Rightarrow> (case services d of [] \<Rightarrow> None | s # rest \<Rightarrow> Some s))"

definition zeroAddress :: string where
  "zeroAddress = ''0x0000000000000000000000000000000000000000''"

text \<open>
  \<open>downloadOceanAsset\<close>: every early \<open>return null\<close> and every exception caught by
  the \<open>catch\<close> block gives \<open>None\<close>.
\<close>

definition downloadOceanAsset ::
  "world \<Rightarrow> ocean option \<Rightarrow> string \<Rightarrow> string \<Rightarrow> string option \<times> io list" where
  "downloadOceanAsset w oceanInst did downloadPath =
     (case oceanInst of
        None \<Rightarrow> (None, [])
      | Some oc \<Rightarrow>
          (case assets_resolve oc did of
             Inl e \<Rightarrow> (None, [OceanResolve did])
           | Inr None \<Rightarrow> (None, [OceanResolve did])
           | Inr (Some d) \<Rightarrow>
               (case selectService d of
                  None \<Rightarrow> (None, [OceanResolve did])
                | Some sv \<Rightarrow>
                    (case provider oc of
                       None \<Rightarrow> (None, [OceanResolve did])
                     | Some pr \<Rightarrow>
                         (let tr1 = [OceanResolve did, ProviderFiles (ddo_id d) (service_id sv)]
                          in case getEncryptedFiles pr (ddo_id d) (service_id sv) zeroAddress of
                               Inl e \<Rightarrow> (None, tr1)
                             | Inr None \<Rightarrow> (None, tr1)
                             | Inr (Some []) \<Rightarrow> (None, tr1)
                             | Inr (Some (fo # rest)) \<Rightarrow>
                                 if \<not> truthy (url fo) then (None, tr1)
                                 else
                                   (let fileUrl = valueOf (url fo);
                                        tr2 = tr1 @ [HttpGet fileUrl]
                                    in case axios_get w fileUrl of
                                         Inl e \<Rightarrow> (None, tr2)
                                       | Inr data \<Rightarrow>
                                           (case writeFile w downloadPath data of
                                              Some e \<Rightarrow>
                                                (None, tr2 @ [FsWrite downloadPath data])
                                            | None \<Rightarrow>
                                                (Some downloadPath,
                                                 tr2 @ [FsWrite downloadPath data]))))))))"

text \<open>\<open>inputDid.replace(/[^a-zA-Z0-9]/g, '_')\<close>.\<close>

definition isAlnum :: "char \<Rightarrow> bool" where
  "isAlnum c =
     (let n = (of_char c :: nat)
      in (97 \<le> n \<and> n \<le> 122) \<or> (65 \<le> n \<and> n \<le> 90) \<or> (48 \<le> n \<and> n \<le> 57))"

definition didFileName :: "string \<Rightarrow> string" where
  "didFileName did = replaceAll (\<lambda>c. \<not> isAlnum c) (\<lambda>c. ''_'') did @ ''.tmp''"

definition defaultImageUrl :: string where
  "defaultImageUrl =
     ''https://raw.githubusercontent.com/oceanprotocol/c2d-examples/main/custom_algorithm/lena.png''"

text \<open>A read or a download whose failure is caught and turned into \<open>null\<close>.\<close>

definition orNull :: "string + buffer \<Rightarrow> buffer option" where
  "orNull r = (case r of Inl e \<Rightarrow> None | Inr b \<Rightarrow> Some b)"

text \<open>The branch of \<open>getImageBuffer\<close> for a marketplace identifier.\<close>

definition fromDid :: "world \<Rightarrow> ocean option \<Rightarrow> string \<Rightarrow> buffer option \<times> io list" where
  "fromDid w oceanInstance inputDid =
     (if oceanInstance = None then (None, [])
      else
        (let tempDownloadDir =
               path_join w
                 (orElse (orOpt (env w ''OUTPUT_DIR'') (env w ''RESULTS_DIR'')) ''/data/outputs'')
                 ''temp_downloads'';
             made = (if \<not> existsSync w tempDownloadDir then mkdirSync w tempDownloadDir else None);
             tr0 = FsExists tempDownloadDir
                   # (if \<not> existsSync w tempDownloadDir then [FsMkdir tempDownloadDir] else [])
         in case made of
              Some e \<Rightarrow> (None, tr0)
            | None \<Rightarrow>
                (let downloadedFilePath = path_join w tempDownloadDir (didFileName inputDid)
                 in case downloadOceanAsset w oceanInstance inputDid downloadedFilePath of
                      (resultPath, tr1) \<Rightarrow>
                        if truthy resultPath
                        then (orNull (readFile w (valueOf resultPath)),
                              tr0 @ tr1 @ [FsRead (valueOf resultPath)])
                        else (None, tr0 @ tr1))))"

definition getImageBuffer :: "world \<Rightarrow> ocean option \<Rightarrow> buffer option \<times> io list" where
  "getImageBuffer w oceanInstance =
     (let inputFile = env w ''INPUT_FILE_PATH_0'';
          inputDid = env w ''INPUT_DID_0'';
          inputUrl = orOpt (env w ''INPUT_IMAGE_URL'') (env w ''IMAGE_URL'')
      in if truthy inputFile then
           (if existsSync w (valueOf inputFile)
            then (orNull (readFile w (valueOf inputFile)),
                  [FsExists (valueOf inputFile), FsRead (valueOf inputFile)])
            else (None, [FsExists (valueOf inputFile)]))
         else if truthy inputDid then fromDid w oceanInstance (valueOf inputDid)
         else if truthy inputUrl then
           (orNull (axios_get w (valueOf inputUrl)), [HttpGet (valueOf inputUrl)])
         else (orNull (axios_get w defaultImageUrl), [HttpGet defaultImageUrl]))"

section \<open>Concrete inputs for the examples\<close>

text \<open>
  An image library that reports the given metadata and encodes successfully, an
  uploaded file, and the printing of the one non-integer number of the examples.
\<close>

definition stubSharp :: "metadata \<Rightarrow> buffer \<Rightarrow> sharp" where
  "stubSharp md out =
     \<lparr> sharp_metadata = (\<lambda>b. Inr md), sharp_toBuffer = (\<lambda>b svg enc. Inr out) \<rparr>"

definition png400x300 :: metadata where
  "png400x300 = \<lparr>width = 400, height = 300, format = Some ''png''\<rparr>"

definition sampleFile :: uploaded where
  "sampleFile = \<lparr>buffer = ''PNGDATA'', mimetype = ''image/png''\<rparr>"

definition showFive4 :: "rat \<Rightarrow> string" where
  "showFive4 q = ''1.25''"

text \<open>
  A square image whose default font size and stroke width are integers, a font
  family that closes the style sheet and carries a text element of its own, and an
  x position that closes its attribute and the tag.
\<close>

definition png480x480 :: metadata where
  "png480x480 = \<lparr>width = 480, height = 480, format = Some ''png''\<rparr>"

definition injectedFamily :: string where
  \<open>injectedFamily = ''Arial";}</style><text x="10" y="20">INJECTED</text><style>.x{y:"''\<close>

text \<open>The no-break space U+00A0, in UTF-8.\<close>

definition nbsp :: string where
  "nbsp = [CHR 0xC2, CHR 0xA0]"

definition injectedPosition :: string where
  \<open>injectedPosition = ''10" y="5">''\<close>

text \<open>
  A world in which a local path, a marketplace identifier and a URL are all
  configured, no file exists and every download succeeds; and a marketplace client
  that resolves no identifier.
\<close>

definition sampleWorld :: world where
  "sampleWorld =
     \<lparr> env = [''INPUT_FILE_PATH_0'' \<mapsto> ''/data/inputs/0/img.png'',
              ''INPUT_DID_0'' \<mapsto> ''did:op:123'',
              ''IMAGE_URL'' \<mapsto> ''http://example.org/a.png''],
       existsSync = (\<lambda>p. False),
       mkdirSync = (\<lambda>p. None),
       readFile = (\<lambda>p. Inl ''ENOENT''),
       writeFile = (\<lambda>p d. None),
       axios_get = (\<lambda>u. Inr ''IMG''),
       path_join = (\<lambda>a b. a @ ''/'' @ b) \<rparr>"

definition noResolveOcean :: ocean where
  "noResolveOcean = \<lparr> assets_resolve = (\<lambda>did. Inr None), provider = None \<rparr>"

section \<open>Properties of the option resolution\<close>

subsection \<open>Auxiliary facts\<close>

lemma parseInt_undefined: "parseInt None = None"
  by (simp add: parseInt_def isStrWhiteSpace_def isStrWhiteSpace2_def isStrWhiteSpace3_def
      isDigit_def)

lemma escapeMatch_namedEntity: "escapeMatch c = namedEntity c"
  by (simp add: escapeMatch_def namedEntity_def)

lemma namedEntity_plain: "\<not> isSpecial c \<Longrightarrow> namedEntity c = [c]"
  by (simp add: namedEntity_def isSpecial_def)

lemma replaceAll_concat: "replaceAll isSpecial escapeMatch s = concat (map namedEntity s)"
  by (induction s) (simp_all add: escapeMatch_namedEntity namedEntity_plain)

lemma noRawSpecial_entity: "noRawSpecial (namedEntity c @ rest) = noRawSpecial rest"
  by (simp add: namedEntity_def isSpecial_def opensEntity_def)

lemma noRawSpecial_concat: "noRawSpecial (concat (map namedEntity s))"
  by (induction s) (simp_all add: noRawSpecial_entity)

lemma text_resolve:
  "textOpts.text (resolveTextOpts md tv opts) = xmlEscape (Some (orElse tv ''Sample Text''))"
  by (simp add: resolveTextOpts_def sanitizeOutputFormat_def buildTextOpts_def Let_def)

lemma fontSize_resolve:
  "textOpts.fontSize (resolveTextOpts md tv opts) = currentFontSize md opts"
  by (simp add: resolveTextOpts_def sanitizeOutputFormat_def buildTextOpts_def Let_def)

lemma strokeWidth_resolve:
  "textOpts.strokeWidth (resolveTextOpts md tv opts) =
     (case parseInt (options.strokeWidth opts) of
        None \<Rightarrow> max 1 (currentFontSize md opts / 20)
      | Some n \<Rightarrow> if n \<ge> 0 then of_int n else max 1 (currentFontSize md opts / 20))"
  by (simp add: resolveTextOpts_def sanitizeOutputFormat_def buildTextOpts_def Let_def)

lemma outputFormat_resolve:
  "textOpts.outputFormat (resolveTextOpts md tv opts) =
     (let f = toLowerCase (orElse (orOpt (options.outputFormat opts) (format md)) ''png'')
      in if \<not> List.member validFormats f then ''png''
         else if f = ''jpg'' then ''jpeg'' else f)"
  by (simp add: resolveTextOpts_def sanitizeOutputFormat_def buildTextOpts_def Let_def
      validFormats_def)

lemma outputFormat_supported:
  "textOpts.outputFormat (resolveTextOpts md tv opts) \<in> supportedFormats"
  by (auto simp add: outputFormat_resolve Let_def validFormats_def supportedFormats_def)

lemma resolve_fields:
  "textOpts.fontFamily (resolveTextOpts md tv opts) = orElse (options.fontFamily opts) ''Arial''"
  "textOpts.fontColor (resolveTextOpts md tv opts) = orElse (options.fontColor opts) ''#FFFFFF''"
  "textOpts.strokeColor (resolveTextOpts md tv opts) = orElse (options.strokeColor opts) ''#000000''"
  "textOpts.xPosition (resolveTextOpts md tv opts) = orElse (options.xPosition opts) ''50%''"
  "textOpts.yPosition (resolveTextOpts md tv opts) = orElse (options.yPosition opts) ''50%''"
  "textOpts.textAlign (resolveTextOpts md tv opts) = orElse (options.textAlign opts) ''middle''"
  "textOpts.dominantBaseline (resolveTextOpts md tv opts) =
     orElse (options.dominantBaseline opts) ''middle''"
  by (simp_all add: resolveTextOpts_def sanitizeOutputFormat_def buildTextOpts_def Let_def)

lemma defaultFontSize_pos: "0 < defaultFontSize md"
  by (simp add: defaultFontSize_def)

lemma sublist_concat: "sublist ys xs \<Longrightarrow> sublist (concat ys) (concat xs)"
  unfolding sublist_def by (metis concat_append)

lemma sublist_text_svg: "sublist (textOpts.text t) (svgText showFrac md t)"
proof -
  have "sublist (concat [textOpts.text t]) (svgText showFrac md t)"
    unfolding svgText_def by (rule sublist_concat) (simp add: sublist_code)
  then show ?thesis by simp
qed

subsection \<open>Escaping\<close>

text \<open>
  Claim C2. For every input text string, the text node of the generated markup is
  the text (or the placeholder, when the text is empty) with each of the characters
  \<open><\<close>, \<open>>\<close>, \<open>&\<close>, \<open>'\<close>, \<open>"\<close> replaced by its named entity; the text node contains
  none of the five characters raw, that is, no \<open><\<close>, \<open>>\<close>, \<open>'\<close>, \<open>"\<close> at all and no
  \<open>&\<close> other than the one that opens a named entity; and the markup contains it.
\<close>

theorem xmlEscape_text_node:
  "textOpts.text (resolveTextOpts md (Some s) opts)
     = concat (map namedEntity (if s = [] then ''Sample Text'' else s))
   \<and> noRawSpecial (textOpts.text (resolveTextOpts md (Some s) opts))
   \<and> sublist (textOpts.text (resolveTextOpts md (Some s) opts))
        (svgText showFrac md (resolveTextOpts md (Some s) opts))"
proof (intro conjI)
  show "textOpts.text (resolveTextOpts md (Some s) opts)
          = concat (map namedEntity (if s = [] then ''Sample Text'' else s))"
    by (simp add: text_resolve xmlEscape_def orElse_def replaceAll_concat)
  then show "noRawSpecial (textOpts.text (resolveTextOpts md (Some s) opts))"
    by (simp only: noRawSpecial_concat)
  show "sublist (textOpts.text (resolveTextOpts md (Some s) opts))
          (svgText showFrac md (resolveTextOpts md (Some s) opts))"
    by (rule sublist_text_svg)
qed

theorem xmlEscape_text_node_witness:
  \<open>textOpts.text (resolveTextOpts \<lparr>width = 400, height = 300, format = Some ''png''\<rparr>
       (Some (''a<b>&'' @ [CHR 0x27] @ ''c'' @ [CHR 0x22])) emptyOptions)
     = ''a&lt;b&gt;&amp;&apos;c&quot;''\<close>
  using xmlEscape_text_node
    [of "\<lparr>width = 400, height = 300, format = Some ''png''\<rparr>"
        "''a<b>&'' @ [CHR 0x27] @ ''c'' @ [CHR 0x22]" emptyOptions]
  by (simp add: namedEntity_def)

subsection \<open>Default font size and stroke width\<close>

text \<open>
  Claim C3. For an image of width \<open>w\<close> and height \<open>h\<close>, when the request supplies no
  \<open>fontSize\<close>, the resolved font size is \<open>max(20, min(w, h) / 12)\<close>.
\<close>

theorem fontSize_default:
  "options.fontSize opts = None \<Longrightarrow>
   textOpts.fontSize (resolveTextOpts md tv opts)
     = max 20 (of_nat (min (width md) (height md)) / 12)"
  by (simp add: fontSize_resolve currentFontSize_def parseInt_undefined defaultFontSize_def)

theorem fontSize_default_witness:
  "textOpts.fontSize (resolveTextOpts \<lparr>width = 1200, height = 600, format = Some ''png''\<rparr>
      (Some ''Hi'') emptyOptions) = 50"
  using fontSize_default
    [of emptyOptions "\<lparr>width = 1200, height = 600, format = Some ''png''\<rparr>" "Some ''Hi''"]
  by (simp add: emptyOptions_def)

text \<open>
  Claim C4. When the request supplies no \<open>strokeWidth\<close>, the resolved stroke width
  is \<open>max(1, resolvedFontSize / 20)\<close>, where \<open>resolvedFontSize\<close> is the font size
  resolved for the same request.
\<close>

theorem strokeWidth_default:
  "options.strokeWidth opts = None \<Longrightarrow>
   textOpts.strokeWidth (resolveTextOpts md tv opts)
     = max 1 (textOpts.fontSize (resolveTextOpts md tv opts) / 20)"
  by (simp add: fontSize_resolve strokeWidth_resolve parseInt_undefined)

theorem strokeWidth_default_witness:
  "textOpts.strokeWidth (resolveTextOpts \<lparr>width = 1200, height = 600, format = Some ''png''\<rparr>
      (Some ''Hi'') emptyOptions)
     = max 1 (textOpts.fontSize (resolveTextOpts
         \<lparr>width = 1200, height = 600, format = Some ''png''\<rparr> (Some ''Hi'') emptyOptions) / 20)"
  using strokeWidth_default
    [of emptyOptions "\<lparr>width = 1200, height = 600, format = Some ''png''\<rparr>" "Some ''Hi''"]
  by (simp add: emptyOptions_def)

lemma parseInt_minus5: "parseInt (Some ''-5'') = Some (- 5)"
  by (simp add: parseInt_def isStrWhiteSpace_def isStrWhiteSpace2_def isDigit_def digitsValue_def)

lemma parseInt_zero: "parseInt (Some ''0'') = Some 0"
  by (simp add: parseInt_def isStrWhiteSpace_def isDigit_def digitsValue_def)

lemma parseInt_nbsp_minus5: "parseInt (Some (nbsp @ ''-5'')) = Some (- 5)"
  by (simp add: nbsp_def parseInt_def isStrWhiteSpace_def isStrWhiteSpace2_def isStrWhiteSpace3_def
      isDigit_def digitsValue_def)

lemma parseInt_nbsp_zero: "parseInt (Some (nbsp @ ''0'')) = Some 0"
  by (simp add: nbsp_def parseInt_def isStrWhiteSpace_def isStrWhiteSpace2_def isStrWhiteSpace3_def
      isDigit_def digitsValue_def)

text \<open>
  Claim C5, as amended. The resolved font size is strictly positive whenever the
  supplied \<open>fontSize\<close> does not parse to a negative integer. The resolved stroke width
  is never negative, and it is strictly positive unless the supplied \<open>strokeWidth\<close>
  parses to 0, which is then the resolved stroke width. The resolved output format is
  always a member of the supported set.
\<close>

theorem resolved_options_invariant:
  "((\<forall>n. parseInt (options.fontSize opts) = Some n \<longrightarrow> 0 \<le> n) \<longrightarrow>
        0 < textOpts.fontSize (resolveTextOpts md tv opts))
   \<and> 0 \<le> textOpts.strokeWidth (resolveTextOpts md tv opts)
   \<and> (parseInt (options.strokeWidth opts) = Some 0 \<longrightarrow>
        textOpts.strokeWidth (resolveTextOpts md tv opts) = 0)
   \<and> (parseInt (options.strokeWidth opts) \<noteq> Some 0 \<longrightarrow>
        0 < textOpts.strokeWidth (resolveTextOpts md tv opts))
   \<and> textOpts.outputFormat (resolveTextOpts md tv opts) \<in> supportedFormats"
  using defaultFontSize_pos[of md]
  by (auto simp add: fontSize_resolve strokeWidth_resolve currentFontSize_def
      outputFormat_supported split: option.splits)

theorem resolved_options_invariant_witness:
  "0 < textOpts.fontSize (resolveTextOpts png400x300 (Some ''Hi'') emptyOptions)
   \<and> 0 < textOpts.strokeWidth (resolveTextOpts png400x300 (Some ''Hi'') emptyOptions)
   \<and> textOpts.outputFormat (resolveTextOpts png400x300 (Some ''Hi'') emptyOptions)
        \<in> supportedFormats
   \<and> textOpts.strokeWidth (resolveTextOpts png400x300 (Some ''Hi'')
        (emptyOptions\<lparr>options.strokeWidth := Some ''0''\<rparr>)) = 0
   \<and> textOpts.strokeWidth (resolveTextOpts png400x300 (Some ''Hi'')
        (emptyOptions\<lparr>options.strokeWidth := Some (nbsp @ ''0'')\<rparr>)) = 0"
  using resolved_options_invariant [of emptyOptions png400x300 "Some ''Hi''"]
    resolved_options_invariant
      [of "emptyOptions\<lparr>options.strokeWidth := Some ''0''\<rparr>" png400x300 "Some ''Hi''"]
    resolved_options_invariant
      [of "emptyOptions\<lparr>options.strokeWidth := Some (nbsp @ ''0'')\<rparr>"
          png400x300 "Some ''Hi''"]
  by (simp add: emptyOptions_def parseInt_undefined parseInt_zero parseInt_nbsp_zero)

text \<open>
  Claim C5 as stated fails: a supplied stroke width \<open>"0"\<close> is kept, and so is a
  supplied font size \<open>"-5"\<close>, also behind a no-break space.
\<close>

theorem resolved_options_positive_counterexample:
  "\<not> 0 < textOpts.strokeWidth (resolveTextOpts png400x300 (Some ''Hi'')
           (emptyOptions\<lparr>options.strokeWidth := Some ''0''\<rparr>))
   \<and> \<not> 0 < textOpts.fontSize (resolveTextOpts png400x300 (Some ''Hi'')
           (emptyOptions\<lparr>options.fontSize := Some ''-5''\<rparr>))
   \<and> \<not> 0 < textOpts.fontSize (resolveTextOpts png400x300 (Some ''Hi'')
           (emptyOptions\<lparr>options.fontSize := Some (nbsp @ ''-5'')\<rparr>))"
  by (simp add: fontSize_resolve strokeWidth_resolve currentFontSize_def emptyOptions_def
      parseInt_minus5 parseInt_zero parseInt_nbsp_minus5)

subsection \<open>Output format\<close>

lemma toLowerCase_JPG: "toLowerCase ''JPG'' = ''jpg''"
  by code_simp

lemma toLowerCase_bmp: "toLowerCase ''bmp'' = ''bmp''"
  by code_simp

lemma toLowerCase_heif: "toLowerCase ''heif'' = ''heif''"
  by code_simp

lemma toLowerCase_jpeg: "toLowerCase ''jpeg'' = ''jpeg''"
  by code_simp

lemma toLowerCase_png: "toLowerCase ''png'' = ''png''"
  by code_simp

text \<open>
  Claim C1, as amended. A supplied format string that case-folds into the whitelist
  resolves to its case-folded form, with \<open>jpg\<close> resolved to \<open>jpeg\<close>, hence to a member
  of the supported set. A supplied non-empty string outside the whitelist resolves
  to \<open>png\<close>. When no format is supplied, or the empty string is, the detected format
  of the image is resolved in the same way: to itself when it case-folds into the
  whitelist (\<open>jpg\<close> to \<open>jpeg\<close>), and to \<open>png\<close> when it does not or when no format was
  detected.
\<close>

theorem outputFormat_resolution:
  "(options.outputFormat opts = Some s
      \<and> toLowerCase s \<in> {''jpeg'', ''jpg'', ''png'', ''webp'', ''avif'', ''tiff'', ''gif''} \<longrightarrow>
        textOpts.outputFormat (resolveTextOpts md tv opts) \<in> supportedFormats
        \<and> textOpts.outputFormat (resolveTextOpts md tv opts)
            = (if toLowerCase s = ''jpg'' then ''jpeg'' else toLowerCase s))
   \<and> (options.outputFormat opts = Some s \<and> s \<noteq> []
      \<and> toLowerCase s \<notin> {''jpeg'', ''jpg'', ''png'', ''webp'', ''avif'', ''tiff'', ''gif''} \<longrightarrow>
        textOpts.outputFormat (resolveTextOpts md tv opts) = ''png'')
   \<and> (\<not> truthy (options.outputFormat opts) \<longrightarrow>
        textOpts.outputFormat (resolveTextOpts md tv opts) =
          (case format md of
             None \<Rightarrow> ''png''
           | Some d \<Rightarrow>
               if toLowerCase d \<in> {''jpeg'', ''png'', ''webp'', ''avif'', ''tiff'', ''gif''}
               then toLowerCase d
               else if toLowerCase d = ''jpg'' then ''jpeg'' else ''png''))"
proof (intro conjI impI)
  assume a: "options.outputFormat opts = Some s
      \<and> toLowerCase s \<in> {''jpeg'', ''jpg'', ''png'', ''webp'', ''avif'', ''tiff'', ''gif''}"
  then have "s \<noteq> []" by (auto simp: toLowerCase_def)
  with a show "textOpts.outputFormat (resolveTextOpts md tv opts)
      = (if toLowerCase s = ''jpg'' then ''jpeg'' else toLowerCase s)"
    by (auto simp add: outputFormat_resolve orOpt_def truthy_def orElse_def validFormats_def)
  show "textOpts.outputFormat (resolveTextOpts md tv opts) \<in> supportedFormats"
    by (rule outputFormat_supported)
next
  assume "options.outputFormat opts = Some s \<and> s \<noteq> []
      \<and> toLowerCase s \<notin> {''jpeg'', ''jpg'', ''png'', ''webp'', ''avif'', ''tiff'', ''gif''}"
  then show "textOpts.outputFormat (resolveTextOpts md tv opts) = ''png''"
    by (auto simp add: outputFormat_resolve orOpt_def truthy_def orElse_def validFormats_def)
next
  assume "\<not> truthy (options.outputFormat opts)"
  then show "textOpts.outputFormat (resolveTextOpts md tv opts) =
          (case format md of
             None \<Rightarrow> ''png''
           | Some d \<Rightarrow>
               if toLowerCase d \<in> {''jpeg'', ''png'', ''webp'', ''avif'', ''tiff'', ''gif''}
               then toLowerCase d
               else if toLowerCase d = ''jpg'' then ''jpeg'' else ''png'')"
    by (auto simp add: outputFormat_resolve orOpt_def truthy_def orElse_def validFormats_def
        toLowerCase_def toLowerChar_def split: option.splits)
qed

theorem outputFormat_resolution_witness:
  "textOpts.outputFormat (resolveTextOpts png400x300 (Some ''Hi'')
       (emptyOptions\<lparr>options.outputFormat := Some ''JPG''\<rparr>)) = ''jpeg''
   \<and> textOpts.outputFormat (resolveTextOpts png400x300 (Some ''Hi'')
       (emptyOptions\<lparr>options.outputFormat := Some ''bmp''\<rparr>)) = ''png''
   \<and> textOpts.outputFormat (resolveTextOpts
       \<lparr>width = 400, height = 300, format = Some ''jpeg''\<rparr> (Some ''Hi'') emptyOptions) = ''jpeg''"
  using outputFormat_resolution
      [of "emptyOptions\<lparr>options.outputFormat := Some ''JPG''\<rparr>" "''JPG''" png400x300 "Some ''Hi''"]
    outputFormat_resolution
      [of "emptyOptions\<lparr>options.outputFormat := Some ''bmp''\<rparr>" "''bmp''" png400x300 "Some ''Hi''"]
    outputFormat_resolution
      [of emptyOptions "''x''" "\<lparr>width = 400, height = 300, format = Some ''jpeg''\<rparr>" "Some ''Hi''"]
  by (simp add: emptyOptions_def truthy_def toLowerCase_JPG toLowerCase_bmp toLowerCase_jpeg)

text \<open>
  Claim C1 as stated fails twice: with no format supplied and the detected format
  \<open>heif\<close>, the resolved format is not the detected one; and the supplied empty string,
  which is outside the whitelist, resolves to the detected format \<open>jpeg\<close>, not to \<open>png\<close>.
\<close>

theorem outputFormat_claim_counterexample:
  "textOpts.outputFormat (resolveTextOpts
       \<lparr>width = 400, height = 300, format = Some ''heif''\<rparr> (Some ''Hi'') emptyOptions) \<noteq> ''heif''
   \<and> textOpts.outputFormat (resolveTextOpts
       \<lparr>width = 400, height = 300, format = Some ''jpeg''\<rparr> (Some ''Hi'')
       (emptyOptions\<lparr>options.outputFormat := Some []\<rparr>)) \<noteq> ''png''"
  by (simp add: outputFormat_resolve orOpt_def truthy_def orElse_def validFormats_def
      toLowerCase_heif toLowerCase_jpeg emptyOptions_def)

section \<open>Properties of the route\<close>

subsection \<open>Auxiliary facts\<close>

lemma addTextToImage_calls_nonempty: "snd (addTextToImage lib sf b tv opts) \<noteq> []"
  by (simp add: addTextToImage_def Let_def split: sum.splits)

lemma addTextToImage_ok:
  "sharp_metadata lib b = Inr md \<Longrightarrow>
   sharp_toBuffer lib b (svgText sf md (resolveTextOpts md tv opts))
      (encoderFor (textOpts.outputFormat (resolveTextOpts md tv opts))) = Inr out \<Longrightarrow>
   fst (addTextToImage lib sf b tv opts)
     = Inr (out, textOpts.outputFormat (resolveTextOpts md tv opts))"
  by (simp add: addTextToImage_def Let_def)

lemma addTextToImage_call:
  "sharp_metadata lib b = Inr md \<Longrightarrow>
   CallToBuffer b (svgText sf md (resolveTextOpts md tv opts))
      (encoderFor (textOpts.outputFormat (resolveTextOpts md tv opts)))
     \<in> set (snd (addTextToImage lib sf b tv opts))"
  by (simp add: addTextToImage_def Let_def split: sum.splits)

lemma route_no_file:
  "file req = None \<Longrightarrow>
   addTextRoute lib sf req = (jsonResponse 400 ''No image file uploaded.'', [])"
  by (simp add: addTextRoute_def)

lemma route_no_text:
  "file req = Some f \<Longrightarrow> body req ''text'' = None \<Longrightarrow>
   addTextRoute lib sf req = (jsonResponse 400 ''No text parameter provided for overlay.'', [])"
  by (simp add: addTextRoute_def truthy_def)

lemma route_processed:
  "file req = Some f \<Longrightarrow> body req ''text'' = Some s \<Longrightarrow>
   addTextRoute lib sf req =
     (case addTextToImage lib sf (buffer f) (Some s) (optionsOf (body req)) of
        (Inr (outputBuffer, fmt), calls) \<Rightarrow>
          (\<lparr> status = 200, contentType = ''image/'' @ fmt,
             payload = Binary outputBuffer \<rparr>, calls)
      | (Inl msg, calls) \<Rightarrow>
          (jsonResponse 500
             (orElse (Some msg) ''An error occurred while processing the image.''), calls))"
  by (auto simp add: addTextRoute_def truthy_def)

lemma route_processed_status:
  "file req = Some f \<Longrightarrow> body req ''text'' = Some s \<Longrightarrow>
   status (fst (addTextRoute lib sf req)) \<in> {200, 500} \<and> snd (addTextRoute lib sf req) \<noteq> []"
  using addTextToImage_calls_nonempty[of lib sf "buffer f" "Some s" "optionsOf (body req)"]
  by (auto simp add: route_processed jsonResponse_def split: prod.splits sum.splits)

lemma route_calls:
  "file req = Some f \<Longrightarrow> body req ''text'' = Some s \<Longrightarrow>
   snd (addTextRoute lib sf req)
     = snd (addTextToImage lib sf (buffer f) (Some s) (optionsOf (body req)))"
  by (auto simp add: route_processed split: prod.splits sum.splits)

lemma svg_text_node:
  \<open>sublist (concat [''            <text x="'', textOpts.xPosition t, ''" y="'',
       textOpts.yPosition t, ''" class="title">'', textOpts.text t, ''</text>''])
     (svgText showFrac md t)\<close>
  unfolding svgText_def by (rule sublist_concat) (simp add: sublist_code)

lemma escaped_hi: \<open>xmlEscape (Some ''Hi <there>'') = ''Hi &lt;there&gt;''\<close>
  by (simp add: xmlEscape_def isSpecial_def escapeMatch_def)

subsection \<open>Rejected requests\<close>

text \<open>
  Claim C7, as amended. The route answers 400 with the error
  \<open>No image file uploaded.\<close> exactly when the request has no image file. It answers
  400 with the error \<open>No text parameter provided for overlay.\<close> exactly when the
  request has an image file and its text field is absent. A request with an image
  file and a present but empty text field is not answered with 400. In both
  rejections the image library is not called.
\<close>

theorem route_rejections:
  "(fst (addTextRoute lib sf req) = jsonResponse 400 ''No image file uploaded.''
      \<longleftrightarrow> file req = None)
   \<and> (fst (addTextRoute lib sf req) = jsonResponse 400 ''No text parameter provided for overlay.''
      \<longleftrightarrow> file req \<noteq> None \<and> body req ''text'' = None)
   \<and> (file req \<noteq> None \<and> body req ''text'' = Some [] \<longrightarrow>
        status (fst (addTextRoute lib sf req)) \<noteq> 400)
   \<and> (file req = None \<or> body req ''text'' = None \<longrightarrow> snd (addTextRoute lib sf req) = [])"
proof (cases "file req")
  case None
  then show ?thesis by (simp add: route_no_file jsonResponse_def)
next
  case (Some f)
  show ?thesis
  proof (cases "body req ''text''")
    case None
    with Some show ?thesis by (simp add: route_no_text jsonResponse_def)
  next
    case (Some s)
    with \<open>file req = Some f\<close> route_processed_status[of req f s lib sf]
    show ?thesis by (auto simp add: jsonResponse_def)
  qed
qed

theorem route_rejections_witness:
  "fst (addTextRoute (stubSharp png400x300 ''OUT'') showFive4
          \<lparr>file = None, body = [''text'' \<mapsto> ''Hi'']\<rparr>)
     = jsonResponse 400 ''No image file uploaded.''
   \<and> snd (addTextRoute (stubSharp png400x300 ''OUT'') showFive4
          \<lparr>file = None, body = [''text'' \<mapsto> ''Hi'']\<rparr>) = []
   \<and> fst (addTextRoute (stubSharp png400x300 ''OUT'') showFive4
          \<lparr>file = Some sampleFile, body = Map.empty\<rparr>)
     = jsonResponse 400 ''No text parameter provided for overlay.''
   \<and> snd (addTextRoute (stubSharp png400x300 ''OUT'') showFive4
          \<lparr>file = Some sampleFile, body = Map.empty\<rparr>) = []
   \<and> status (fst (addTextRoute (stubSharp png400x300 ''OUT'') showFive4
          \<lparr>file = Some sampleFile, body = [''text'' \<mapsto> []]\<rparr>)) \<noteq> 400"
  using route_rejections
      [of "stubSharp png400x300 ''OUT''" showFive4 "\<lparr>file = None, body = [''text'' \<mapsto> ''Hi'']\<rparr>"]
    route_rejections
      [of "stubSharp png400x300 ''OUT''" showFive4 "\<lparr>file = Some sampleFile, body = Map.empty\<rparr>"]
    route_rejections
      [of "stubSharp png400x300 ''OUT''" showFive4
          "\<lparr>file = Some sampleFile, body = [''text'' \<mapsto> []]\<rparr>"]
  by simp

text \<open>
  Claim C7 as stated fails: a request with neither an image file nor a text field
  has its text field absent, and is not answered with the error about the text.
\<close>

theorem route_missing_text_counterexample:
  "body \<lparr>file = None, body = Map.empty\<rparr> ''text'' = None
   \<and> fst (addTextRoute (stubSharp png400x300 ''OUT'') showFive4
        \<lparr>file = None, body = Map.empty\<rparr>)
      \<noteq> jsonResponse 400 ''No text parameter provided for overlay.''"
  by (simp add: addTextRoute_def jsonResponse_def)

subsection \<open>Empty text\<close>

text \<open>
  Claim C9, as amended. A request that carries an image file and whose text field
  is present but empty is not answered with 400; and whenever the metadata of the
  image can be read, the markup handed to the image library has the text node with
  exactly the content \<open>Sample Text\<close>.
\<close>

theorem empty_text_placeholder:
  assumes "file req = Some f" and "body req ''text'' = Some []"
  shows \<open>status (fst (addTextRoute lib sf req)) \<noteq> 400
     \<and> (\<forall>md. sharp_metadata lib (buffer f) = Inr md \<longrightarrow>
          (let t = resolveTextOpts md (Some []) (optionsOf (body req)) in
             textOpts.text t = ''Sample Text''
             \<and> CallToBuffer (buffer f) (svgText sf md t) (encoderFor (textOpts.outputFormat t))
                 \<in> set (snd (addTextRoute lib sf req))
             \<and> sublist (concat [''            <text x="'', textOpts.xPosition t, ''" y="'',
                   textOpts.yPosition t, ''" class="title">'', ''Sample Text'', ''</text>''])
                 (svgText sf md t)))\<close>
proof (intro conjI allI impI)
  show "status (fst (addTextRoute lib sf req)) \<noteq> 400"
    using route_processed_status[OF assms, of lib sf] by auto
next
  fix md assume md: "sharp_metadata lib (buffer f) = Inr md"
  let ?t = "resolveTextOpts md (Some []) (optionsOf (body req))"
  have t: "textOpts.text ?t = ''Sample Text''"
    by (simp add: text_resolve orElse_def xmlEscape_def isSpecial_def)
  have call: "CallToBuffer (buffer f) (svgText sf md ?t) (encoderFor (textOpts.outputFormat ?t))
       \<in> set (snd (addTextRoute lib sf req))"
    unfolding route_calls[OF assms] by (rule addTextToImage_call[OF md])
  have node: \<open>sublist (concat [''            <text x="'', textOpts.xPosition ?t, ''" y="'',
        textOpts.yPosition ?t, ''" class="title">'', ''Sample Text'', ''</text>''])
      (svgText sf md ?t)\<close>
    using svg_text_node[of ?t sf md] unfolding t .
  show \<open>let t = resolveTextOpts md (Some []) (optionsOf (body req)) in
             textOpts.text t = ''Sample Text''
             \<and> CallToBuffer (buffer f) (svgText sf md t) (encoderFor (textOpts.outputFormat t))
                 \<in> set (snd (addTextRoute lib sf req))
             \<and> sublist (concat [''            <text x="'', textOpts.xPosition t, ''" y="'',
                   textOpts.yPosition t, ''" class="title">'', ''Sample Text'', ''</text>''])
                 (svgText sf md t)\<close>
    unfolding Let_def using t call node by (intro conjI)
qed

theorem empty_text_placeholder_witness:
  "status (fst (addTextRoute (stubSharp png400x300 ''OUT'') showFive4
       \<lparr>file = Some sampleFile, body = [''text'' \<mapsto> []]\<rparr>)) \<noteq> 400
   \<and> textOpts.text (resolveTextOpts png400x300 (Some [])
        (optionsOf [''text'' \<mapsto> []])) = ''Sample Text''"
  using empty_text_placeholder
      [of "\<lparr>file = Some sampleFile, body = [''text'' \<mapsto> []]\<rparr>" sampleFile
          "stubSharp png400x300 ''OUT''" showFive4]
  by (simp add: stubSharp_def Let_def)

text \<open>
  Claim C9 as stated fails: a request whose text field is present and empty, and
  which carries no image file, is answered with 400.
\<close>

theorem empty_text_no_file_counterexample:
  "body \<lparr>file = None, body = [''text'' \<mapsto> []]\<rparr> ''text'' = Some []
   \<and> status (fst (addTextRoute (stubSharp png400x300 ''OUT'') showFive4
        \<lparr>file = None, body = [''text'' \<mapsto> []]\<rparr>)) = 400"
  by (simp add: addTextRoute_def jsonResponse_def)

subsection \<open>The scenario of a 400 by 300 upload\<close>

text \<open>
  Claim C6, as amended. For a 400 by 300 PNG upload with the text \<open>Hi <there>\<close> and
  no other field, when the image library encodes the result, the markup contains
  \<open>Hi &lt;there&gt;\<close>, the resolved output format is \<open>png\<close>, the resolved font size is
  25, and the response has status 200 and \<open>Content-Type: image/png\<close>.
\<close>

theorem scenario_400x300:
  assumes "file req = Some f" and "body req = [''text'' \<mapsto> ''Hi <there>'']"
    and "sharp_metadata lib (buffer f) = Inr png400x300"
    and "sharp_toBuffer lib (buffer f)
           (svgText sf png400x300 (resolveTextOpts png400x300 (Some ''Hi <there>'') emptyOptions))
           (Png 6) = Inr out"
  shows \<open>fst (addTextRoute lib sf req)
       = \<lparr>status = 200, contentType = ''image/png'', payload = Binary out\<rparr>
     \<and> sublist ''Hi &lt;there&gt;''
         (svgText sf png400x300 (resolveTextOpts png400x300 (Some ''Hi <there>'') emptyOptions))
     \<and> textOpts.outputFormat (resolveTextOpts png400x300 (Some ''Hi <there>'') emptyOptions)
         = ''png''
     \<and> textOpts.fontSize (resolveTextOpts png400x300 (Some ''Hi <there>'') emptyOptions) = 25\<close>
proof -
  let ?t = "resolveTextOpts png400x300 (Some ''Hi <there>'') emptyOptions"
  have opts: "optionsOf (body req) = emptyOptions"
    by (simp add: assms(2) optionsOf_def emptyOptions_def)
  have tval: "body req ''text'' = Some ''Hi <there>''"
    by (simp add: assms(2))
  have fmt: "textOpts.outputFormat ?t = ''png''"
    by (simp add: outputFormat_resolve orOpt_def truthy_def orElse_def validFormats_def
        emptyOptions_def png400x300_def toLowerCase_png)
  have fs: "textOpts.fontSize ?t = 25"
    by (simp add: fontSize_resolve currentFontSize_def emptyOptions_def parseInt_undefined
        defaultFontSize_def png400x300_def)
  have tx: \<open>textOpts.text ?t = ''Hi &lt;there&gt;''\<close>
    by (simp add: text_resolve orElse_def escaped_hi)
  have sub: \<open>sublist ''Hi &lt;there&gt;'' (svgText sf png400x300 ?t)\<close>
    using sublist_text_svg[of ?t sf png400x300] unfolding tx .
  have "fst (addTextToImage lib sf (buffer f) (Some ''Hi <there>'') emptyOptions)
          = Inr (out, ''png'')"
    using addTextToImage_ok[OF assms(3), of sf "Some ''Hi <there>''" emptyOptions out] assms(4)
    by (simp add: fmt encoderFor_def)
  then have "fst (addTextRoute lib sf req)
      = \<lparr>status = 200, contentType = ''image/png'', payload = Binary out\<rparr>"
    by (cases "addTextToImage lib sf (buffer f) (Some ''Hi <there>'') emptyOptions")
       (simp add: route_processed[OF assms(1) tval] opts)
  with sub fmt fs show ?thesis by simp
qed

theorem scenario_400x300_witness:
  "fst (addTextRoute (stubSharp png400x300 ''OUT'') showFive4
       \<lparr>file = Some sampleFile, body = [''text'' \<mapsto> ''Hi <there>'']\<rparr>)
     = \<lparr>status = 200, contentType = ''image/png'', payload = Binary ''OUT''\<rparr>
   \<and> textOpts.fontSize (resolveTextOpts png400x300 (Some ''Hi <there>'') emptyOptions) = 25"
  using scenario_400x300
      [of "\<lparr>file = Some sampleFile, body = [''text'' \<mapsto> ''Hi <there>'']\<rparr>" sampleFile
          "stubSharp png400x300 ''OUT''" showFive4 "''OUT''"]
  by (simp add: stubSharp_def)

text \<open>
  Claim C6 as stated fails: the font size resolved for the 400 by 300 image is not 33.
\<close>

theorem scenario_fontSize_33_counterexample:
  "textOpts.fontSize (resolveTextOpts \<lparr>width = 400, height = 300, format = Some ''png''\<rparr>
      (Some ''Hi <there>'') emptyOptions) \<noteq> 33"
  by (simp add: fontSize_resolve currentFontSize_def emptyOptions_def parseInt_undefined
      defaultFontSize_def)

section \<open>Properties of the markup\<close>

text \<open>
  Claim C8. For every input, the markup should declare the width and height of
  the base image, contain exactly one text node, positioned at the resolved
  \<open>xPosition\<close> and \<open>yPosition\<close>, and carry the resolved styles. The text is escaped
  before it is written into the template, but the style and position options are
  written as they are supplied. With a font family that closes the style sheet and
  carries a text element, the markup has two text elements. With an x position that
  closes the attribute and the tag, the text element is at (10, 5), not at the
  resolved position, and its content is the rest of the tag followed by the text.
\<close>

theorem svgText_injection:
  \<open>occurrences ''<text'' (svgText showFive4 png480x480
       (resolveTextOpts png480x480 (Some ''Hi'')
          (emptyOptions\<lparr>options.fontFamily := Some injectedFamily\<rparr>))) = 2
   \<and> sublist ''<text x="10" y="5">" y="50%" class="title">Hi</text>''
       (svgText showFive4 png480x480
          (resolveTextOpts png480x480 (Some ''Hi'')
             (emptyOptions\<lparr>options.xPosition := Some injectedPosition\<rparr>)))\<close>
  by code_simp

section \<open>Properties of the image source\<close>

subsection \<open>Auxiliary facts\<close>

lemma download_resolution_fails:
  "oc = Some o1 \<Longrightarrow> (\<forall>d. assets_resolve o1 did \<noteq> Inr (Some d)) \<Longrightarrow>
   downloadOceanAsset w oc did path = (None, [OceanResolve did])"
  by (auto simp add: downloadOceanAsset_def split: sum.splits option.splits)

lemma fromDid_no_ocean: "fromDid w None did = (None, [])"
  by (simp add: fromDid_def)

lemma fromDid_download_fails:
  "fst (downloadOceanAsset w oc did
      (path_join w (path_join w
          (orElse (orOpt (env w ''OUTPUT_DIR'') (env w ''RESULTS_DIR'')) ''/data/outputs'')
          ''temp_downloads'') (didFileName did))) = None \<Longrightarrow>
   fst (fromDid w oc did) = None"
  by (auto simp add: fromDid_def Let_def truthy_def split: option.splits prod.splits)

lemma fromDid_resolution_fails:
  assumes "oc = Some o1" "\<forall>d. assets_resolve o1 did \<noteq> Inr (Some d)"
  shows "fst (fromDid w oc did) = None \<and> (\<forall>u. HttpGet u \<notin> set (snd (fromDid w oc did)))"
  using download_resolution_fails[OF assms, of w]
  by (auto simp add: fromDid_def Let_def truthy_def split: option.splits)

lemma fromDid_download_ok:
  assumes "oc \<noteq> None"
    and "existsSync w (path_join w
          (orElse (orOpt (env w ''OUTPUT_DIR'') (env w ''RESULTS_DIR'')) ''/data/outputs'')
          ''temp_downloads'')
        \<or> mkdirSync w (path_join w
          (orElse (orOpt (env w ''OUTPUT_DIR'') (env w ''RESULTS_DIR'')) ''/data/outputs'')
          ''temp_downloads'') = None"
    and "fst (downloadOceanAsset w oc did
      (path_join w (path_join w
          (orElse (orOpt (env w ''OUTPUT_DIR'') (env w ''RESULTS_DIR'')) ''/data/outputs'')
          ''temp_downloads'') (didFileName did))) = Some p" and "p \<noteq> []"
  shows "fst (fromDid w oc did) = orNull (readFile w p)"
  using assms
  by (auto simp add: fromDid_def Let_def truthy_def valueOf_def split: option.splits prod.splits)

subsection \<open>Priority of the sources\<close>

text \<open>
  Claim C10. The script takes the image from the configured local path if one is
  set; otherwise from the configured marketplace identifier; otherwise from the
  configured URL; otherwise from the default URL. When the local path is set and
  does not exist, the result is \<open>null\<close> and nothing but the existence test was done.
  When the identifier is the selected source and there is no marketplace client,
  or the identifier does not resolve, or the download fails in any other way, the
  result is \<open>null\<close>; in the first two cases no URL was fetched. When the download
  succeeds, the result is the content of the downloaded file.
\<close>

theorem getImageBuffer_priority:
  "(truthy (env w ''INPUT_FILE_PATH_0'') \<longrightarrow>
      getImageBuffer w oc =
        (if existsSync w (valueOf (env w ''INPUT_FILE_PATH_0''))
         then (orNull (readFile w (valueOf (env w ''INPUT_FILE_PATH_0''))),
               [FsExists (valueOf (env w ''INPUT_FILE_PATH_0'')),
                FsRead (valueOf (env w ''INPUT_FILE_PATH_0''))])
         else (None, [FsExists (valueOf (env w ''INPUT_FILE_PATH_0''))])))
   \<and> (\<not> truthy (env w ''INPUT_FILE_PATH_0'') \<and> truthy (env w ''INPUT_DID_0'') \<longrightarrow>
        (oc = None \<longrightarrow> getImageBuffer w oc = (None, []))
        \<and> (\<forall>o1. oc = Some o1
              \<and> (\<forall>d. assets_resolve o1 (valueOf (env w ''INPUT_DID_0'')) \<noteq> Inr (Some d)) \<longrightarrow>
              fst (getImageBuffer w oc) = None
              \<and> (\<forall>u. HttpGet u \<notin> set (snd (getImageBuffer w oc))))
        \<and> (fst (downloadOceanAsset w oc (valueOf (env w ''INPUT_DID_0''))
              (path_join w (path_join w
                 (orElse (orOpt (env w ''OUTPUT_DIR'') (env w ''RESULTS_DIR'')) ''/data/outputs'')
                 ''temp_downloads'') (didFileName (valueOf (env w ''INPUT_DID_0''))))) = None \<longrightarrow>
            fst (getImageBuffer w oc) = None)
        \<and> (\<forall>p. oc \<noteq> None
              \<and> (existsSync w (path_join w
                    (orElse (orOpt (env w ''OUTPUT_DIR'') (env w ''RESULTS_DIR'')) ''/data/outputs'')
                    ''temp_downloads'')
                  \<or> mkdirSync w (path_join w
                    (orElse (orOpt (env w ''OUTPUT_DIR'') (env w ''RESULTS_DIR'')) ''/data/outputs'')
                    ''temp_downloads'') = None)
              \<and> fst (downloadOceanAsset w oc (valueOf (env w ''INPUT_DID_0''))
                    (path_join w (path_join w
                       (orElse (orOpt (env w ''OUTPUT_DIR'') (env w ''RESULTS_DIR''))
                          ''/data/outputs'')
                       ''temp_downloads'') (didFileName (valueOf (env w ''INPUT_DID_0'')))))
                  = Some p
              \<and> p \<noteq> [] \<longrightarrow>
              fst (getImageBuffer w oc) = orNull (readFile w p)))
   \<and> (\<not> truthy (env w ''INPUT_FILE_PATH_0'') \<and> \<not> truthy (env w ''INPUT_DID_0'')
        \<and> truthy (orOpt (env w ''INPUT_IMAGE_URL'') (env w ''IMAGE_URL'')) \<longrightarrow>
        getImageBuffer w oc =
          (orNull (axios_get w (valueOf (orOpt (env w ''INPUT_IMAGE_URL'') (env w ''IMAGE_URL'')))),
           [HttpGet (valueOf (orOpt (env w ''INPUT_IMAGE_URL'') (env w ''IMAGE_URL'')))]))
   \<and> (\<not> truthy (env w ''INPUT_FILE_PATH_0'') \<and> \<not> truthy (env w ''INPUT_DID_0'')
        \<and> \<not> truthy (orOpt (env w ''INPUT_IMAGE_URL'') (env w ''IMAGE_URL'')) \<longrightarrow>
        getImageBuffer w oc = (orNull (axios_get w defaultImageUrl), [HttpGet defaultImageUrl]))"
proof (intro conjI impI allI)
  assume "truthy (env w ''INPUT_FILE_PATH_0'')"
  then show "getImageBuffer w oc =
        (if existsSync w (valueOf (env w ''INPUT_FILE_PATH_0''))
         then (orNull (readFile w (valueOf (env w ''INPUT_FILE_PATH_0''))),
               [FsExists (valueOf (env w ''INPUT_FILE_PATH_0'')),
                FsRead (valueOf (env w ''INPUT_FILE_PATH_0''))])
         else (None, [FsExists (valueOf (env w ''INPUT_FILE_PATH_0''))]))"
    by (simp add: getImageBuffer_def Let_def)
next
  assume a: "\<not> truthy (env w ''INPUT_FILE_PATH_0'') \<and> truthy (env w ''INPUT_DID_0'')"
  then have g: "getImageBuffer w oc = fromDid w oc (valueOf (env w ''INPUT_DID_0''))"
    by (simp add: getImageBuffer_def Let_def)
  { assume "oc = None"
    then show "getImageBuffer w oc = (None, [])" using g by (simp add: fromDid_no_ocean) }
  { fix o1 assume "oc = Some o1
              \<and> (\<forall>d. assets_resolve o1 (valueOf (env w ''INPUT_DID_0'')) \<noteq> Inr (Some d))"
    then have h1: "oc = Some o1"
      and h2: "\<forall>d. assets_resolve o1 (valueOf (env w ''INPUT_DID_0'')) \<noteq> Inr (Some d)"
      by simp_all
    have r: "fst (fromDid w oc (valueOf (env w ''INPUT_DID_0''))) = None \<and>
        (\<forall>u. HttpGet u \<notin> set (snd (fromDid w oc (valueOf (env w ''INPUT_DID_0'')))))"
      by (rule fromDid_resolution_fails[OF h1 h2])
    show "fst (getImageBuffer w oc) = None" using r g by simp
    fix u show "HttpGet u \<notin> set (snd (getImageBuffer w oc))" using r g by simp }
  { assume "fst (downloadOceanAsset w oc (valueOf (env w ''INPUT_DID_0''))
              (path_join w (path_join w
                 (orElse (orOpt (env w ''OUTPUT_DIR'') (env w ''RESULTS_DIR'')) ''/data/outputs'')
                 ''temp_downloads'') (didFileName (valueOf (env w ''INPUT_DID_0''))))) = None"
    then show "fst (getImageBuffer w oc) = None"
      using g fromDid_download_fails[of w oc "valueOf (env w ''INPUT_DID_0'')"] by simp }
  { fix p assume "oc \<noteq> None
              \<and> (existsSync w (path_join w
                    (orElse (orOpt (env w ''OUTPUT_DIR'') (env w ''RESULTS_DIR'')) ''/data/outputs'')
                    ''temp_downloads'')
                  \<or> mkdirSync w (path_join w
                    (orElse (orOpt (env w ''OUTPUT_DIR'') (env w ''RESULTS_DIR'')) ''/data/outputs'')
                    ''temp_downloads'') = None)
              \<and> fst (downloadOceanAsset w oc (valueOf (env w ''INPUT_DID_0''))
                    (path_join w (path_join w
                       (orElse (orOpt (env w ''OUTPUT_DIR'') (env w ''RESULTS_DIR''))
                          ''/data/outputs'')
                       ''temp_downloads'') (didFileName (valueOf (env w ''INPUT_DID_0'')))))
                  = Some p
              \<and> p \<noteq> []"
    then show "fst (getImageBuffer w oc) = orNull (readFile w p)"
      using g fromDid_download_ok[of oc w "valueOf (env w ''INPUT_DID_0'')" p] by simp }
next
  assume "\<not> truthy (env w ''INPUT_FILE_PATH_0'') \<and> \<not> truthy (env w ''INPUT_DID_0'')
        \<and> truthy (orOpt (env w ''INPUT_IMAGE_URL'') (env w ''IMAGE_URL''))"
  then show "getImageBuffer w oc =
          (orNull (axios_get w (valueOf (orOpt (env w ''INPUT_IMAGE_URL'') (env w ''IMAGE_URL'')))),
           [HttpGet (valueOf (orOpt (env w ''INPUT_IMAGE_URL'') (env w ''IMAGE_URL'')))])"
    by (simp add: getImageBuffer_def Let_def)
next
  assume "\<not> truthy (env w ''INPUT_FILE_PATH_0'') \<and> \<not> truthy (env w ''INPUT_DID_0'')
        \<and> \<not> truthy (orOpt (env w ''INPUT_IMAGE_URL'') (env w ''IMAGE_URL''))"
  then show "getImageBuffer w oc = (orNull (axios_get w defaultImageUrl), [HttpGet defaultImageUrl])"
    by (simp add: getImageBuffer_def Let_def)
qed

theorem getImageBuffer_priority_witness:
  "getImageBuffer sampleWorld None = (None, [FsExists ''/data/inputs/0/img.png''])
   \<and> getImageBuffer
        (sampleWorld\<lparr>env := [''INPUT_DID_0'' \<mapsto> ''did:op:123'',
                              ''IMAGE_URL'' \<mapsto> ''http://example.org/a.png'']\<rparr>) None
       = (None, [])
   \<and> fst (getImageBuffer
        (sampleWorld\<lparr>env := [''INPUT_DID_0'' \<mapsto> ''did:op:123'',
                              ''IMAGE_URL'' \<mapsto> ''http://example.org/a.png'']\<rparr>)
        (Some noResolveOcean)) = None
   \<and> getImageBuffer (sampleWorld\<lparr>env := [''IMAGE_URL'' \<mapsto> ''http://example.org/a.png'']\<rparr>) None
       = (Some ''IMG'', [HttpGet ''http://example.org/a.png''])
   \<and> getImageBuffer (sampleWorld\<lparr>env := Map.empty\<rparr>) None
       = (Some ''IMG'', [HttpGet defaultImageUrl])"
proof (intro conjI)
  show "getImageBuffer sampleWorld None = (None, [FsExists ''/data/inputs/0/img.png''])"
    using getImageBuffer_priority [of sampleWorld None]
    by (simp add: sampleWorld_def truthy_def valueOf_def)
  show "getImageBuffer
        (sampleWorld\<lparr>env := [''INPUT_DID_0'' \<mapsto> ''did:op:123'',
                              ''IMAGE_URL'' \<mapsto> ''http://example.org/a.png'']\<rparr>) None
       = (None, [])"
    using getImageBuffer_priority
      [of "sampleWorld\<lparr>env := [''INPUT_DID_0'' \<mapsto> ''did:op:123'',
                                 ''IMAGE_URL'' \<mapsto> ''http://example.org/a.png'']\<rparr>" None]
    by (simp add: sampleWorld_def truthy_def)
  show "fst (getImageBuffer
        (sampleWorld\<lparr>env := [''INPUT_DID_0'' \<mapsto> ''did:op:123'',
                              ''IMAGE_URL'' \<mapsto> ''http://example.org/a.png'']\<rparr>)
        (Some noResolveOcean)) = None"
    using getImageBuffer_priority
      [of "sampleWorld\<lparr>env := [''INPUT_DID_0'' \<mapsto> ''did:op:123'',
                                 ''IMAGE_URL'' \<mapsto> ''http://example.org/a.png'']\<rparr>"
          "Some noResolveOcean"]
    by (simp add: sampleWorld_def noResolveOcean_def truthy_def)
  show "getImageBuffer (sampleWorld\<lparr>env := [''IMAGE_URL'' \<mapsto> ''http://example.org/a.png'']\<rparr>) None
       = (Some ''IMG'', [HttpGet ''http://example.org/a.png''])"
    using getImageBuffer_priority
      [of "sampleWorld\<lparr>env := [''IMAGE_URL'' \<mapsto> ''http://example.org/a.png'']\<rparr>" None]
    by (simp add: sampleWorld_def truthy_def valueOf_def orOpt_def orNull_def)
  show "getImageBuffer (sampleWorld\<lparr>env := Map.empty\<rparr>) None
       = (Some ''IMG'', [HttpGet defaultImageUrl])"
    using getImageBuffer_priority [of "sampleWorld\<lparr>env := Map.empty\<rparr>" None]
    by (simp add: sampleWorld_def truthy_def orOpt_def orNull_def)
qed

end
